theory Spec2Isabelle
  imports Complex_Main
begin

section \<open>Python values used by the NEO programme\<close>

text \<open>
  A Python float is either not-a-number, one of the two infinities, or a finite
  number. Only the order and equality tests of the source are modelled; rounding
  to binary64 is not, so a finite float is carried as the real it denotes.
  Minus zero and zero are the same finite number: Python compares them equal and
  both are falsy.
\<close>

datatype pyfloat = Fin real | PInf | NInf | NaN

text \<open>\<open>a < b\<close> on floats: every comparison with not-a-number is false.\<close>

fun float_lt :: "pyfloat \<Rightarrow> pyfloat \<Rightarrow> bool" where
  "float_lt NaN _ = False"
| "float_lt _ NaN = False"
| "float_lt (Fin a) (Fin b) = (a < b)"
| "float_lt (Fin _) PInf = True"
| "float_lt (Fin _) NInf = False"
| "float_lt NInf NInf = False"
| "float_lt NInf _ = True"
| "float_lt PInf _ = False"

text \<open>\<open>a > b\<close> is \<open>b < a\<close>.\<close>

definition float_gt :: "pyfloat \<Rightarrow> pyfloat \<Rightarrow> bool" where
  "float_gt a b = float_lt b a"

text \<open>\<open>a != b\<close> on floats: not-a-number differs from everything, itself included.\<close>

fun float_ne :: "pyfloat \<Rightarrow> pyfloat \<Rightarrow> bool" where
  "float_ne NaN _ = True"
| "float_ne _ NaN = True"
| "float_ne a b = (a \<noteq> b)"

text \<open>
  The values the constructors, the JSON reader and \<open>serialize\<close> handle: \<open>None\<close>,
  booleans, floats, strings, lists and dictionaries with string keys (a dictionary
  literal of the source lists its keys once, so an association list in key order
  stands for it). Integers are left out: the catalogue files carry numbers as text.
  A string is a list of characters with code points below 256.
\<close>

datatype pyval =
  PyNone
| PyBool bool
| PyFloat pyfloat
| PyStr string
| PyList "pyval list"
| PyDict "(string \<times> pyval) list"

text \<open>The exception classes that the modelled functions raise or catch.\<close>

datatype pyexn =
  AttributeError | KeyError | TypeError | ValueError | IndexError | OSError
| OtherException

text \<open>Truth value testing, as \<open>if x\<close> and \<open>x and y\<close> apply it.\<close>

fun truthy :: "pyval \<Rightarrow> bool" where
  "truthy PyNone = False"
| "truthy (PyBool b) = b"
| "truthy (PyFloat f) = (f \<noteq> Fin 0)"
| "truthy (PyStr s) = (s \<noteq> [])"
| "truthy (PyList xs) = (xs \<noteq> [])"
| "truthy (PyDict kvs) = (kvs \<noteq> [])"

text \<open>
  \<open>str.isspace\<close> on one character, for the code points below 256: tab, line
  feed, vertical tab, form feed, carriage return, the four separators 28 to 31,
  space, next line (133) and no-break space (160).
\<close>

definition isspace :: "char \<Rightarrow> bool" where
  "isspace c = (of_char c \<in> {9, 10, 11, 12, 13, 28, 29, 30, 31, 32, 133, 160 :: nat})"

text \<open>\<open>s.strip()\<close>: leading and trailing whitespace removed.\<close>

definition strip :: "string \<Rightarrow> string" where
  "strip s = rev (dropWhile isspace (rev (dropWhile isspace s)))"

text \<open>
  Whether \<open>str(x).strip()\<close> is a non-empty string. For a string \<open>str\<close> is the
  identity; the text of \<open>None\<close>, of a boolean, of a float, of a list or of a
  dictionary always has a character that is not whitespace.
\<close>

fun str_strip_truthy :: "pyval \<Rightarrow> bool" where
  "str_strip_truthy (PyStr s) = (strip s \<noteq> [])"
| "str_strip_truthy _ = True"

text \<open>
  \<open>float(x)\<close>. Parsing a string is Python's own; it is the parameter
  \<open>float_of_str\<close>, which answers \<open>None\<close> where Python raises \<open>ValueError\<close>.
\<close>

fun py_float :: "(string \<Rightarrow> pyfloat option) \<Rightarrow> pyval \<Rightarrow> pyexn + pyfloat" where
  "py_float float_of_str (PyStr s) =
     (case float_of_str s of None \<Rightarrow> Inl ValueError | Some f \<Rightarrow> Inr f)"
| "py_float float_of_str (PyFloat f) = Inr f"
| "py_float float_of_str (PyBool b) = Inr (Fin (if b then 1 else 0))"
| "py_float float_of_str PyNone = Inl TypeError"
| "py_float float_of_str (PyList xs) = Inl TypeError"
| "py_float float_of_str (PyDict kvs) = Inl TypeError"

text \<open>
  \<open>str(x)\<close>: the identity on a string; the text of any other value is Python's
  own and is the parameter \<open>repr\<close>.
\<close>

fun py_str :: "(pyval \<Rightarrow> string) \<Rightarrow> pyval \<Rightarrow> string" where
  "py_str repr (PyStr s) = s"
| "py_str repr v = repr v"

section \<open>models.py\<close>

text \<open>
  A near-Earth object. The collection \<open>approaches\<close> is empty at construction and
  is filled by the database, outside these modules; no function here reads it.
\<close>

record NearEarthObject =
  designation :: string
  name :: "string option"
  diameter :: pyfloat
  hazardous :: bool

text \<open>
  \<open>NearEarthObject.__init__(designation, name, diameter, hazardous)\<close>. The
  designation and the name arrive as a string or \<open>None\<close>, the diameter as any value
  (\<open>load_neos\<close> passes a string or \<open>None\<close>, the default is \<open>float("nan")\<close>), the flag as
  a boolean. The only step that can raise is \<open>float(diameter)\<close>.
\<close>

definition NearEarthObject_init ::
  "(string \<Rightarrow> pyfloat option) \<Rightarrow> string option \<Rightarrow> string option \<Rightarrow> pyval \<Rightarrow> bool
     \<Rightarrow> pyexn + NearEarthObject" where
  "NearEarthObject_init float_of_str designation_arg name_arg diameter_arg hazardous_arg =
     (let d = (case designation_arg of
                 None \<Rightarrow> []
               | Some s \<Rightarrow> if s \<noteq> [] then s else []);
          n = (case name_arg of
                 None \<Rightarrow> None
               | Some s \<Rightarrow> if s \<noteq> [] \<and> strip s \<noteq> [] then Some s else None)
      in case (if truthy diameter_arg \<and> str_strip_truthy diameter_arg
               then py_float float_of_str diameter_arg
               else Inr NaN) of
           Inl e \<Rightarrow> Inl e
         | Inr f \<Rightarrow>
             Inr \<lparr>designation = d, name = n, diameter = f, hazardous = hazardous_arg\<rparr>)"

text \<open>\<open>NearEarthObject.serialize()\<close>.\<close>

definition neo_serialize :: "NearEarthObject \<Rightarrow> pyval" where
  "neo_serialize self =
     PyDict
       [(''designation'', PyStr (designation self)),
        (''name'', PyStr (case name self of
                            None \<Rightarrow> []
                          | Some s \<Rightarrow> if s \<noteq> [] then s else [])),
        (''diameter_km'', PyFloat (if \<not> float_ne (diameter self) (diameter self)
                                   then diameter self else NaN)),
        (''potentially_hazardous'', PyBool (hazardous self))]"

text \<open>
  A close approach. The date and time is a value of the \<open>datetime\<close> type, here
  the type parameter; \<open>cd_to_datetime\<close> and \<open>datetime_to_str\<close> of the helpers
  module are parameters of the functions that call them.
\<close>

record 'dt CloseApproach =
  ca_designation :: string
  time :: "'dt option"
  distance :: pyfloat
  velocity :: pyfloat
  neo :: "NearEarthObject option"

text \<open>
  \<open>CloseApproach.__init__(designation, time, distance, velocity)\<close>, on the values
  of one JSON row. The arguments are evaluated in the order of the assignments, so
  the first one to raise decides the exception.
\<close>

definition CloseApproach_init ::
  "(pyval \<Rightarrow> string) \<Rightarrow> (string \<Rightarrow> pyfloat option) \<Rightarrow> (pyval \<Rightarrow> pyexn + 'dt)
     \<Rightarrow> pyval \<Rightarrow> pyval \<Rightarrow> pyval \<Rightarrow> pyval \<Rightarrow> pyexn + 'dt CloseApproach" where
  "CloseApproach_init repr float_of_str cd_to_datetime
       designation_arg time_arg distance_arg velocity_arg =
     (let d = (if truthy designation_arg then py_str repr designation_arg else [])
      in case (if truthy time_arg then map_sum id Some (cd_to_datetime time_arg)
               else Inr None) of
           Inl e \<Rightarrow> Inl e
         | Inr t \<Rightarrow>
            (case (if truthy distance_arg then py_float float_of_str distance_arg
                   else Inr (Fin 0)) of
               Inl e \<Rightarrow> Inl e
             | Inr dist_val \<Rightarrow>
                (case (if truthy velocity_arg then py_float float_of_str velocity_arg
                       else Inr (Fin 0)) of
                   Inl e \<Rightarrow> Inl e
                 | Inr vel \<Rightarrow>
                     Inr \<lparr>ca_designation = d, time = t, distance = dist_val,
                          velocity = vel, neo = None\<rparr>)))"

text \<open>\<open>CloseApproach.time_str\<close>: a \<open>datetime\<close> object is always truthy.\<close>

definition time_str :: "('dt \<Rightarrow> string) \<Rightarrow> 'dt CloseApproach \<Rightarrow> string" where
  "time_str datetime_to_str self =
     (case time self of None \<Rightarrow> [] | Some t \<Rightarrow> datetime_to_str t)"

text \<open>
  \<open>CloseApproach.serialize()\<close>: the linked object's own mapping, or the
  placeholder built from the captured designation.
\<close>

definition ca_serialize :: "('dt \<Rightarrow> string) \<Rightarrow> 'dt CloseApproach \<Rightarrow> pyval" where
  "ca_serialize datetime_to_str self =
     PyDict
       [(''datetime_utc'', PyStr (time_str datetime_to_str self)),
        (''distance_au'', PyFloat (distance self)),
        (''velocity_km_s'', PyFloat (velocity self)),
        (''neo'', (case neo self of
                     Some n \<Rightarrow> neo_serialize n
                   | None \<Rightarrow>
                       PyDict
                         [(''designation'', PyStr (ca_designation self)),
                          (''name'', PyStr []),
                          (''diameter_km'', PyFloat NaN),
                          (''potentially_hazardous'', PyBool False)]))]"

section \<open>extract.py\<close>

text \<open>
  A row of \<open>csv.DictReader\<close>: the header names paired with the fields of the line,
  in column order, with \<open>None\<close> for the columns the line is too short to fill. The
  reader builds a dictionary from these pairs, so for a header name that occurs
  twice the later column is the one kept. \<open>row[key]\<close> raises \<open>KeyError\<close> for a name the
  header does not have.
\<close>

type_synonym csv_row = "(string \<times> string option) list"

definition row_getitem :: "csv_row \<Rightarrow> string \<Rightarrow> pyexn + string option" where
  "row_getitem row key =
     (case map_of (rev row) key of None \<Rightarrow> Inl KeyError | Some v \<Rightarrow> Inr v)"

text \<open>\<open>row[key].strip()\<close> as a truth value; \<open>None\<close> has no \<open>strip\<close>.\<close>

definition strip_truthy :: "string option \<Rightarrow> pyexn + bool" where
  "strip_truthy v = (case v of None \<Rightarrow> Inl AttributeError | Some s \<Rightarrow> Inr (strip s \<noteq> []))"

text \<open>The body of the loop of \<open>load_neos\<close>, on one row.\<close>

definition neo_of_row :: "(string \<Rightarrow> pyfloat option) \<Rightarrow> csv_row \<Rightarrow> pyexn + NearEarthObject" where
  "neo_of_row float_of_str row =
     (case row_getitem row ''pdes'' of
        Inl e \<Rightarrow> Inl e
      | Inr pdes \<Rightarrow>
     (case row_getitem row ''name'' of
        Inl e \<Rightarrow> Inl e
      | Inr nm \<Rightarrow>
     (case strip_truthy nm of
        Inl e \<Rightarrow> Inl e
      | Inr nm_given \<Rightarrow>
     (case row_getitem row ''diameter'' of
        Inl e \<Rightarrow> Inl e
      | Inr dia \<Rightarrow>
     (case strip_truthy dia of
        Inl e \<Rightarrow> Inl e
      | Inr dia_given \<Rightarrow>
     (case row_getitem row ''pha'' of
        Inl e \<Rightarrow> Inl e
      | Inr pha \<Rightarrow>
          NearEarthObject_init float_of_str
            pdes
            (if nm_given then nm else None)
            (if dia_given then (case dia of Some s \<Rightarrow> PyStr s | None \<Rightarrow> PyNone) else PyNone)
            (pha = Some ''Y'')))))))"

text \<open>\<open>load_neos\<close>, on the rows the reader yields; an exception ends the pass.\<close>

fun load_neos :: "(string \<Rightarrow> pyfloat option) \<Rightarrow> csv_row list \<Rightarrow> pyexn + NearEarthObject list" where
  "load_neos float_of_str [] = Inr []"
| "load_neos float_of_str (row # rows) =
     (case neo_of_row float_of_str row of
        Inl e \<Rightarrow> Inl e
      | Inr n \<Rightarrow>
         (case load_neos float_of_str rows of
            Inl e \<Rightarrow> Inl e
          | Inr ns \<Rightarrow> Inr (n # ns)))"

text \<open>\<open>fields.index(x)\<close> for a string \<open>x\<close>: the first position, or \<open>ValueError\<close>.\<close>

fun py_index :: "pyval list \<Rightarrow> string \<Rightarrow> pyexn + nat" where
  "py_index [] x = Inl ValueError"
| "py_index (y # ys) x =
     (if y = PyStr x then Inr 0 else map_sum id Suc (py_index ys x))"

text \<open>\<open>row[i]\<close> for an index that \<open>index\<close> returned (never negative).\<close>

definition list_getitem :: "pyval list \<Rightarrow> nat \<Rightarrow> pyexn + pyval" where
  "list_getitem xs i = (if i < length xs then Inr (xs ! i) else Inl IndexError)"

text \<open>The body of the loop of \<open>load_approaches\<close>, on one row.\<close>

definition approach_of_row ::
  "(pyval \<Rightarrow> string) \<Rightarrow> (string \<Rightarrow> pyfloat option) \<Rightarrow> (pyval \<Rightarrow> pyexn + 'dt)
     \<Rightarrow> nat \<Rightarrow> nat \<Rightarrow> nat \<Rightarrow> nat \<Rightarrow> pyval list \<Rightarrow> pyexn + 'dt CloseApproach" where
  "approach_of_row repr float_of_str cd_to_datetime des_idx cd_idx dist_idx v_rel_idx
       approach_row =
     (case list_getitem approach_row des_idx of
        Inl e \<Rightarrow> Inl e
      | Inr des \<Rightarrow>
     (case list_getitem approach_row cd_idx of
        Inl e \<Rightarrow> Inl e
      | Inr cd \<Rightarrow>
     (case list_getitem approach_row dist_idx of
        Inl e \<Rightarrow> Inl e
      | Inr dist_val \<Rightarrow>
     (case list_getitem approach_row v_rel_idx of
        Inl e \<Rightarrow> Inl e
      | Inr v_rel \<Rightarrow>
          CloseApproach_init repr float_of_str cd_to_datetime des cd dist_val v_rel))))"

fun approaches_of_rows ::
  "(pyval \<Rightarrow> string) \<Rightarrow> (string \<Rightarrow> pyfloat option) \<Rightarrow> (pyval \<Rightarrow> pyexn + 'dt)
     \<Rightarrow> nat \<Rightarrow> nat \<Rightarrow> nat \<Rightarrow> nat \<Rightarrow> pyval list list \<Rightarrow> pyexn + 'dt CloseApproach list" where
  "approaches_of_rows repr float_of_str cd_to_datetime des_idx cd_idx dist_idx v_rel_idx [] =
     Inr []"
| "approaches_of_rows repr float_of_str cd_to_datetime des_idx cd_idx dist_idx v_rel_idx
       (approach_row # rest) =
     (case approach_of_row repr float_of_str cd_to_datetime
             des_idx cd_idx dist_idx v_rel_idx approach_row of
        Inl e \<Rightarrow> Inl e
      | Inr a \<Rightarrow>
         (case approaches_of_rows repr float_of_str cd_to_datetime
                 des_idx cd_idx dist_idx v_rel_idx rest of
            Inl e \<Rightarrow> Inl e
          | Inr approaches \<Rightarrow> Inr (a # approaches)))"

text \<open>
  \<open>load_approaches\<close>, on the two values of the JSON object: the list \<open>fields\<close>
  (here \<open>field_names\<close>) and the list of rows \<open>data\<close>. The four positions are looked up once, before any row.
\<close>

definition load_approaches ::
  "(pyval \<Rightarrow> string) \<Rightarrow> (string \<Rightarrow> pyfloat option) \<Rightarrow> (pyval \<Rightarrow> pyexn + 'dt)
     \<Rightarrow> pyval list \<Rightarrow> pyval list list \<Rightarrow> pyexn + 'dt CloseApproach list" where
  "load_approaches repr float_of_str cd_to_datetime field_names approach_data =
     (case py_index field_names ''des'' of
        Inl e \<Rightarrow> Inl e
      | Inr des_idx \<Rightarrow>
     (case py_index field_names ''cd'' of
        Inl e \<Rightarrow> Inl e
      | Inr cd_idx \<Rightarrow>
     (case py_index field_names ''dist'' of
        Inl e \<Rightarrow> Inl e
      | Inr dist_idx \<Rightarrow>
     (case py_index field_names ''v_rel'' of
        Inl e \<Rightarrow> Inl e
      | Inr v_rel_idx \<Rightarrow>
          approaches_of_rows repr float_of_str cd_to_datetime
            des_idx cd_idx dist_idx v_rel_idx approach_data))))"

section \<open>write.py\<close>

text \<open>
  The writers take any iterable of objects with a \<open>serialize\<close> method. An element
  of the results is modelled by what calling \<open>approach.serialize()\<close> does: it raises
  an exception or returns a value. A \<open>CloseApproach\<close> always returns its mapping.
\<close>

type_synonym entity = "pyexn + pyval"

definition entity_of :: "('dt \<Rightarrow> string) \<Rightarrow> 'dt CloseApproach \<Rightarrow> entity" where
  "entity_of datetime_to_str a = Inr (ca_serialize datetime_to_str a)"

text \<open>
  The calls on the open file, in order. Opening, writing and flushing are taken to
  succeed. One run of a writer ends with the calls made, the exceptions reported
  as warnings on the diagnostic stream, and the exception that left the function,
  if any. (The outer handler re-raises an \<open>OSError\<close> as an \<open>OSError\<close>, so the class
  that leaves is the class that was raised.)
\<close>

datatype fop = Write string | Flush

record export =
  ops :: "fop list"
  warnings :: "pyexn list"
  raised :: "pyexn option"

text \<open>The characters in the file once it is closed.\<close>

fun file_text :: "fop list \<Rightarrow> string" where
  "file_text [] = []"
| "file_text (Write s # rest) = s @ file_text rest"
| "file_text (Flush # rest) = file_text rest"

text \<open>\<open>x[key]\<close> with a string key.\<close>

fun py_getitem :: "pyval \<Rightarrow> string \<Rightarrow> pyexn + pyval" where
  "py_getitem (PyDict kvs) key =
     (case map_of kvs key of None \<Rightarrow> Inl KeyError | Some v \<Rightarrow> Inr v)"
| "py_getitem _ key = Inl TypeError"

text \<open>Values computed left to right; the first exception ends the evaluation.\<close>

fun in_order :: "('e + 'a) list \<Rightarrow> 'e + 'a list" where
  "in_order [] = Inr []"
| "in_order (Inl e # rest) = Inl e"
| "in_order (Inr v # rest) = (case in_order rest of Inl e \<Rightarrow> Inl e | Inr vs \<Rightarrow> Inr (v # vs))"

definition neo_field :: "pyval \<Rightarrow> string \<Rightarrow> pyexn + pyval" where
  "neo_field data key =
     (case py_getitem data ''neo'' of Inl e \<Rightarrow> Inl e | Inr n \<Rightarrow> py_getitem n key)"

text \<open>The flattened row of \<open>write_to_csv\<close>, its values in the order of the columns.\<close>

definition csv_row_of :: "pyval \<Rightarrow> pyexn + pyval list" where
  "csv_row_of data =
     in_order
       [py_getitem data ''datetime_utc'',
        py_getitem data ''distance_au'',
        py_getitem data ''velocity_km_s'',
        neo_field data ''designation'',
        neo_field data ''name'',
        neo_field data ''diameter_km'',
        neo_field data ''potentially_hazardous'']"

definition fieldnames :: "string list" where
  "fieldnames =
     [''datetime_utc'', ''distance_au'', ''velocity_km_s'', ''designation'', ''name'',
      ''diameter_km'', ''potentially_hazardous'']"

text \<open>
  The loop of \<open>write_to_csv\<close>. The text of one record is the \<open>csv\<close> module's
  and is the parameter \<open>csv_line\<close>. The handler of the loop body names
  \<open>AttributeError\<close> and \<open>KeyError\<close>.
\<close>

fun write_to_csv_loop ::
  "(pyval list \<Rightarrow> string) \<Rightarrow> entity list \<Rightarrow> fop list \<Rightarrow> pyexn list \<Rightarrow> export" where
  "write_to_csv_loop csv_line [] file warns =
     \<lparr>ops = file, warnings = warns, raised = None\<rparr>"
| "write_to_csv_loop csv_line (approach # rest) file warns =
     (case (case approach of Inl e \<Rightarrow> Inl e | Inr data \<Rightarrow> csv_row_of data) of
        Inr row \<Rightarrow> write_to_csv_loop csv_line rest (file @ [Write (csv_line row)]) warns
      | Inl e \<Rightarrow>
          if e = AttributeError \<or> e = KeyError
          then write_to_csv_loop csv_line rest file (warns @ [e])
          else \<lparr>ops = file, warnings = warns, raised = Some e\<rparr>)"

definition write_to_csv :: "(pyval list \<Rightarrow> string) \<Rightarrow> entity list \<Rightarrow> export" where
  "write_to_csv csv_line results =
     write_to_csv_loop csv_line results [Write (csv_line (map PyStr fieldnames))] []"

text \<open>
  The loop of \<open>write_to_json\<close>. \<open>json.dump(data, file, ...)\<close> is the parameter
  \<open>json_dump\<close>: the text it wrote to the file, and the exception it raised, if any
  (it writes as it goes, so text can precede the exception). The separator is
  written, or \<open>first\<close> cleared, before \<open>serialize\<close> is called. The handler of the
  loop body names \<open>AttributeError\<close> and \<open>TypeError\<close>.
\<close>

fun write_to_json_loop ::
  "(pyval \<Rightarrow> string \<times> pyexn option) \<Rightarrow> entity list \<Rightarrow> bool \<Rightarrow> fop list \<Rightarrow> pyexn list
     \<Rightarrow> export" where
  "write_to_json_loop json_dump [] first file warns =
     \<lparr>ops = file @ [Write ''\<newline>]''], warnings = warns, raised = None\<rparr>"
| "write_to_json_loop json_dump (approach # rest) first file warns =
     (let file1 = (if \<not> first then file @ [Write '',\<newline>''] else file)
      in case approach of
           Inl e \<Rightarrow>
             if e = AttributeError \<or> e = TypeError
             then write_to_json_loop json_dump rest False file1 (warns @ [e])
             else \<lparr>ops = file1, warnings = warns, raised = Some e\<rparr>
         | Inr data \<Rightarrow>
            (case json_dump data of
               (txt, None) \<Rightarrow>
                 write_to_json_loop json_dump rest False (file1 @ [Write txt]) warns
             | (txt, Some e) \<Rightarrow>
                 if e = AttributeError \<or> e = TypeError
                 then write_to_json_loop json_dump rest False (file1 @ [Write txt])
                        (warns @ [e])
                 else \<lparr>ops = file1 @ [Write txt], warnings = warns, raised = Some e\<rparr>))"

definition write_to_json :: "(pyval \<Rightarrow> string \<times> pyexn option) \<Rightarrow> entity list \<Rightarrow> export" where
  "write_to_json json_dump results =
     write_to_json_loop json_dump results True [Write ''[\<newline>''] []"

text \<open>
  The loop of \<open>write_to_json_streaming\<close>: the same statements, and
  \<open>file.flush()\<close> after a \<open>json.dump\<close> that returned.
\<close>

fun write_to_json_streaming_loop ::
  "(pyval \<Rightarrow> string \<times> pyexn option) \<Rightarrow> entity list \<Rightarrow> bool \<Rightarrow> fop list \<Rightarrow> pyexn list
     \<Rightarrow> export" where
  "write_to_json_streaming_loop json_dump [] first file warns =
     \<lparr>ops = file @ [Write ''\<newline>]''], warnings = warns, raised = None\<rparr>"
| "write_to_json_streaming_loop json_dump (approach # rest) first file warns =
     (let file1 = (if \<not> first then file @ [Write '',\<newline>''] else file)
      in case approach of
           Inl e \<Rightarrow>
             if e = AttributeError \<or> e = TypeError
             then write_to_json_streaming_loop json_dump rest False file1 (warns @ [e])
             else \<lparr>ops = file1, warnings = warns, raised = Some e\<rparr>
         | Inr data \<Rightarrow>
            (case json_dump data of
               (txt, None) \<Rightarrow>
                 write_to_json_streaming_loop json_dump rest False
                   (file1 @ [Write txt, Flush]) warns
             | (txt, Some e) \<Rightarrow>
                 if e = AttributeError \<or> e = TypeError
                 then write_to_json_streaming_loop json_dump rest False
                        (file1 @ [Write txt]) (warns @ [e])
                 else \<lparr>ops = file1 @ [Write txt], warnings = warns, raised = Some e\<rparr>))"

definition write_to_json_streaming ::
  "(pyval \<Rightarrow> string \<times> pyexn option) \<Rightarrow> entity list \<Rightarrow> export" where
  "write_to_json_streaming json_dump results =
     write_to_json_streaming_loop json_dump results True [Write ''[\<newline>''] []"

section \<open>validation.py\<close>

text \<open>
  \<open>ValidationError\<close> carries a formatted message. The message is kept as its
  shape: which check failed, for which quantity, and the offending values that the
  f-string prints.
\<close>

datatype message =
  CannotBeGreater string pyfloat pyfloat
| CannotBeNegative string pyfloat

datatype validation_error = ValidationError message

text \<open>
  \<open>validate_distance_range(min_distance, max_distance)\<close>: every check sits under
  the guard that both bounds are not \<open>None\<close>.
\<close>

definition validate_distance_range ::
  "pyfloat option \<Rightarrow> pyfloat option \<Rightarrow> validation_error + unit" where
  "validate_distance_range min_distance max_distance =
     (case (min_distance, max_distance) of
        (Some lo, Some hi) \<Rightarrow>
          if float_gt lo hi then
            Inl (ValidationError (CannotBeGreater ''distance'' lo hi))
          else if float_lt lo (Fin 0) then
            Inl (ValidationError (CannotBeNegative ''Minimum distance'' lo))
          else if float_lt hi (Fin 0) then
            Inl (ValidationError (CannotBeNegative ''Maximum distance'' hi))
          else Inr ()
      | _ \<Rightarrow> Inr ())"

definition validate_velocity_range ::
  "pyfloat option \<Rightarrow> pyfloat option \<Rightarrow> validation_error + unit" where
  "validate_velocity_range min_velocity max_velocity =
     (case (min_velocity, max_velocity) of
        (Some lo, Some hi) \<Rightarrow>
          if float_gt lo hi then
            Inl (ValidationError (CannotBeGreater ''velocity'' lo hi))
          else if float_lt lo (Fin 0) then
            Inl (ValidationError (CannotBeNegative ''Minimum velocity'' lo))
          else if float_lt hi (Fin 0) then
            Inl (ValidationError (CannotBeNegative ''Maximum velocity'' hi))
          else Inr ()
      | _ \<Rightarrow> Inr ())"

definition validate_diameter_range ::
  "pyfloat option \<Rightarrow> pyfloat option \<Rightarrow> validation_error + unit" where
  "validate_diameter_range min_diameter max_diameter =
     (case (min_diameter, max_diameter) of
        (Some lo, Some hi) \<Rightarrow>
          if float_gt lo hi then
            Inl (ValidationError (CannotBeGreater ''diameter'' lo hi))
          else if float_lt lo (Fin 0) then
            Inl (ValidationError (CannotBeNegative ''Minimum diameter'' lo))
          else if float_lt hi (Fin 0) then
            Inl (ValidationError (CannotBeNegative ''Maximum diameter'' hi))
          else Inr ()
      | _ \<Rightarrow> Inr ())"

section \<open>The array the specification describes\<close>

text \<open>
  Following the specification's words, not the source: a JSON array of the
  elements' texts, wrapped in \<open>[\<close> and \<open>]\<close> and separated by commas, with the line
  breaks the writers use. It is what the output is compared with.
\<close>

fun join :: "string \<Rightarrow> string list \<Rightarrow> string" where
  "join sep [] = []"
| "join sep [x] = x"
| "join sep (x # y # ys) = x @ sep @ join sep (y # ys)"

definition spec_json_array :: "string list \<Rightarrow> string" where
  "spec_json_array elems = ''[\<newline>'' @ join '',\<newline>'' elems @ ''\<newline>]''"

section \<open>The rows the specification calls valid\<close>

text \<open>
  Following the specification's words, not the source. The text of a column of a
  row, where the row has that column and the line was long enough to fill it.
\<close>

definition row_text :: "csv_row \<Rightarrow> string \<Rightarrow> string option" where
  "row_text row key = (case row_getitem row key of Inr (Some s) \<Rightarrow> Some s | _ \<Rightarrow> None)"

text \<open>
  A valid row has a text in each of the columns \<open>pdes\<close>, \<open>name\<close>, \<open>diameter\<close> and
  \<open>pha\<close>, and its diameter text is blank or is read by \<open>float\<close> as a number, that
  is, as a value other than not-a-number.
\<close>

definition valid_row :: "(string \<Rightarrow> pyfloat option) \<Rightarrow> csv_row \<Rightarrow> bool" where
  "valid_row float_of_str row =
     (row_text row ''pdes'' \<noteq> None
      \<and> row_text row ''name'' \<noteq> None
      \<and> row_text row ''pha'' \<noteq> None
      \<and> (case row_text row ''diameter'' of
            None \<Rightarrow> False
          | Some dia \<Rightarrow>
              strip dia = []
              \<or> (case float_of_str dia of None \<Rightarrow> False | Some f \<Rightarrow> f \<noteq> NaN)))"

section \<open>Range validation\<close>

text \<open>
  C1 (as the specification states it, refuted). The claim says the distance and
  velocity checks raise whenever either bound is present and negative, also when
  the other bound is absent. With a lower bound of \<open>-1\<close> and no upper bound, and
  with no lower bound and an upper bound of \<open>-1\<close>, a bound is present and negative,
  yet neither function raises: the sign checks are inside the both-present guard.
\<close>

theorem validate_distance_velocity_single_negative_accepted:
  "float_lt (Fin (- 1)) (Fin 0)
   \<and> validate_distance_range (Some (Fin (- 1))) None = Inr ()
   \<and> validate_distance_range None (Some (Fin (- 1))) = Inr ()
   \<and> validate_velocity_range (Some (Fin (- 1))) None = Inr ()
   \<and> validate_velocity_range None (Some (Fin (- 1))) = Inr ()"
  by (simp add: validate_distance_range_def validate_velocity_range_def)

text \<open>
  C1 (amended). \<open>validate_distance_range\<close> and \<open>validate_velocity_range\<close> raise the
  validation error if and only if both bounds are present and either the lower
  bound is greater than the upper bound or one of the two bounds is negative.
\<close>

theorem validate_distance_velocity_raise_iff:
  "isl (validate_distance_range lo hi) =
     (\<exists>a b. lo = Some a \<and> hi = Some b
        \<and> (float_gt a b \<or> float_lt a (Fin 0) \<or> float_lt b (Fin 0)))
   \<and> isl (validate_velocity_range lo hi) =
     (\<exists>a b. lo = Some a \<and> hi = Some b
        \<and> (float_gt a b \<or> float_lt a (Fin 0) \<or> float_lt b (Fin 0)))"
  by (cases lo; cases hi)
     (simp_all add: validate_distance_range_def validate_velocity_range_def)

text \<open>
  C4 (as the specification states it, refuted). The claim says the diameter check
  never raises on account of a negative bound. The bounds \<open>-2\<close> and \<open>-1\<close> are in
  order, and \<open>validate_diameter_range\<close> raises for the negative lower bound.
\<close>

theorem validate_diameter_negative_rejected:
  "\<not> float_gt (Fin (- 2)) (Fin (- 1))
   \<and> validate_diameter_range (Some (Fin (- 2))) (Some (Fin (- 1)))
       = Inl (ValidationError (CannotBeNegative ''Minimum diameter'' (Fin (- 2))))"
  by (simp add: validate_diameter_range_def float_gt_def)

text \<open>
  C4 (amended). \<open>validate_diameter_range\<close> raises if and only if both bounds are
  present and either the lower bound is greater than the upper bound or one of the
  two bounds is negative: it makes the same three checks as the distance and
  velocity functions.
\<close>

theorem validate_diameter_raise_iff:
  "isl (validate_diameter_range lo hi) =
     (\<exists>a b. lo = Some a \<and> hi = Some b
        \<and> (float_gt a b \<or> float_lt a (Fin 0) \<or> float_lt b (Fin 0)))"
  by (cases lo; cases hi) (simp_all add: validate_diameter_range_def)

section \<open>The entity model\<close>

text \<open>
  C2 (the code departs from the claim). A diameter given as the number \<open>0.0\<close>
  is falsy, so the constructor's truth test takes the branch meant for an absent
  value and stores not-a-number: after construction a zero diameter cannot be told
  from an unknown one.
\<close>

theorem NearEarthObject_init_zero_diameter_is_nan:
  "map_sum id diameter
     (NearEarthObject_init float_of_str des nm (PyFloat (Fin 0)) hz) = Inr NaN
   \<and> map_sum id diameter
     (NearEarthObject_init float_of_str des nm PyNone hz) = Inr NaN"
  by (simp add: NearEarthObject_init_def)

text \<open>
  The same zero given as the text \<open>0\<close>, as \<open>load_neos\<close> passes it, is stored as
  \<open>0.0\<close>: a non-empty string is truthy.
\<close>

lemma NearEarthObject_init_zero_text:
  "float_of_str ''0'' = Some (Fin 0) \<Longrightarrow>
   map_sum id diameter
     (NearEarthObject_init float_of_str des nm (PyStr ''0'') hz) = Inr (Fin 0)"
  by (simp add: NearEarthObject_init_def strip_def isspace_def)

text \<open>
  C8. For every close approach whose \<open>neo\<close> link is \<open>None\<close>, \<open>serialize()\<close> returns
  the nested mapping with the captured designation, the empty string as name,
  not-a-number as \<open>diameter_km\<close> and \<open>False\<close> as \<open>potentially_hazardous\<close>; it returns
  a value and raises nothing.
\<close>

theorem ca_serialize_unlinked:
  "neo a = None \<Longrightarrow>
   ca_serialize datetime_to_str a =
     PyDict
       [(''datetime_utc'', PyStr (time_str datetime_to_str a)),
        (''distance_au'', PyFloat (distance a)),
        (''velocity_km_s'', PyFloat (velocity a)),
        (''neo'',
         PyDict
           [(''designation'', PyStr (ca_designation a)),
            (''name'', PyStr []),
            (''diameter_km'', PyFloat NaN),
            (''potentially_hazardous'', PyBool False)])]"
  by (simp add: ca_serialize_def)

theorem ca_serialize_unlinked_witness:
  "neo \<lparr>ca_designation = ''433'', time = Some (), distance = Fin 0, velocity = Fin 0,
        neo = None\<rparr> = None
   \<and> ca_serialize (\<lambda>t. ''1900-01-01 00:00'')
       \<lparr>ca_designation = ''433'', time = Some (), distance = Fin 0, velocity = Fin 0,
        neo = None\<rparr> =
     PyDict
       [(''datetime_utc'', PyStr ''1900-01-01 00:00''),
        (''distance_au'', PyFloat (Fin 0)),
        (''velocity_km_s'', PyFloat (Fin 0)),
        (''neo'',
         PyDict
           [(''designation'', PyStr ''433''),
            (''name'', PyStr []),
            (''diameter_km'', PyFloat NaN),
            (''potentially_hazardous'', PyBool False)])]"
  using ca_serialize_unlinked
    [of "\<lparr>ca_designation = ''433'', time = Some (), distance = Fin 0, velocity = Fin 0,
          neo = None\<rparr>" "\<lambda>t. ''1900-01-01 00:00''"]
  by (simp add: time_str_def)

section \<open>The JSON writers\<close>

lemma file_text_no_flush:
  "file_text (filter (\<lambda>op. op \<noteq> Flush) xs) = file_text xs"
  by (induction xs rule: file_text.induct) simp_all

text \<open>
  The buffered loop, run on the calls of the streaming loop with the flushes
  erased, ends as the streaming loop does, flushes erased.
\<close>

lemma streaming_loop_erase:
  "out' = filter (\<lambda>op. op \<noteq> Flush) out \<Longrightarrow>
   write_to_json_loop d rs first out' warns =
     (write_to_json_streaming_loop d rs first out warns)
       \<lparr>ops := filter (\<lambda>op. op \<noteq> Flush)
                 (ops (write_to_json_streaming_loop d rs first out warns))\<rparr>"
proof (induction rs arbitrary: first out out' warns)
  case Nil
  then show ?case by simp
next
  case (Cons a rs)
  show ?case
  proof (cases a)
    case (Inl e)
    then show ?thesis
      using Cons.prems by (auto simp: Let_def intro!: Cons.IH)
  next
    case (Inr data)
    obtain w r where dd: "d data = (w, r)" by (cases "d data")
    show ?thesis
      using Inr dd Cons.prems
      by (cases r) (auto simp: Let_def intro!: Cons.IH)
  qed
qed

text \<open>
  What the streaming loop adds to the calls it starts from, where it goes on after
  a sequence that raised nothing, and how many times it flushes.
\<close>

lemma streaming_loop_extends_gen:
  "\<exists>after. ops (write_to_json_streaming_loop d rs first (p @ q) warns) = p @ after"
proof (induction rs arbitrary: first q warns)
  case Nil
  show ?case by simp
next
  case (Cons a rs)
  show ?case
  proof (cases a)
    case (Inl e)
    show ?thesis
      using Inl Cons.IH [of False "q @ [Write '',\<newline>'']"] Cons.IH [of False q]
      by (auto simp: Let_def)
  next
    case (Inr data)
    obtain w r where dd: "d data = (w, r)" by (cases "d data")
    show ?thesis
      using Inr dd
        Cons.IH [of False "q @ [Write '',\<newline>'', Write w, Flush]"]
        Cons.IH [of False "q @ [Write w, Flush]"]
        Cons.IH [of False "q @ [Write '',\<newline>'', Write w]"]
        Cons.IH [of False "q @ [Write w]"]
      by (cases r) (auto simp: Let_def)
  qed
qed

lemma streaming_loop_extends:
  "\<exists>after. ops (write_to_json_streaming_loop d rs first out warns) = out @ after"
  using streaming_loop_extends_gen [of d rs first out "[]" warns] by simp

lemma streaming_loop_append:
  "raised (write_to_json_streaming_loop d pre first out warns) = None \<Longrightarrow>
   \<exists>body w'. ops (write_to_json_streaming_loop d pre first out warns) =
                out @ body @ [Write ''\<newline>]'']
     \<and> (\<forall>rs. write_to_json_streaming_loop d (pre @ rs) first out warns =
              write_to_json_streaming_loop d rs (first \<and> pre = []) (out @ body) w')"
proof (induction pre arbitrary: first out warns)
  case Nil
  show ?case by (intro exI [of _ "[]"] exI [of _ warns]) simp
next
  case (Cons a pre)
  define out1 where "out1 = (if \<not> first then out @ [Write '',\<newline>''] else out)"
  have o1: "\<exists>sep. out1 = out @ sep" by (simp add: out1_def)
  show ?case
  proof (cases a)
    case (Inl e)
    show ?thesis
    proof (cases "e = AttributeError \<or> e = TypeError")
      case True
      have step: "\<And>rs. write_to_json_streaming_loop d (a # rs) first out warns =
          write_to_json_streaming_loop d rs False out1 (warns @ [e])"
        using Inl True by (auto simp: Let_def out1_def)
      have "raised (write_to_json_streaming_loop d pre False out1 (warns @ [e])) = None"
        using Cons.prems step [of pre] by simp
      from Cons.IH [OF this] obtain body w' where
        b: "ops (write_to_json_streaming_loop d pre False out1 (warns @ [e])) =
              out1 @ body @ [Write ''\<newline>]'']"
          "\<forall>rs. write_to_json_streaming_loop d (pre @ rs) False out1 (warns @ [e]) =
              write_to_json_streaming_loop d rs (False \<and> pre = []) (out1 @ body) w'"
        by blast
      obtain sep where sep: "out1 = out @ sep" using o1 by blast
      show ?thesis
        using b step sep
        by (intro exI [of _ "sep @ body"] exI [of _ w']) simp
    next
      case False
      then show ?thesis using Inl Cons.prems by (auto simp: Let_def)
    qed
  next
    case (Inr data)
    obtain w r where dd: "d data = (w, r)" by (cases "d data")
    show ?thesis
    proof (cases r)
      case None
      have step: "\<And>rs. write_to_json_streaming_loop d (a # rs) first out warns =
          write_to_json_streaming_loop d rs False (out1 @ [Write w, Flush]) warns"
        using Inr dd None by (auto simp: Let_def out1_def)
      have "raised (write_to_json_streaming_loop d pre False (out1 @ [Write w, Flush]) warns)
          = None"
        using Cons.prems step [of pre] by simp
      from Cons.IH [OF this] obtain body w' where
        b: "ops (write_to_json_streaming_loop d pre False (out1 @ [Write w, Flush]) warns) =
              (out1 @ [Write w, Flush]) @ body @ [Write ''\<newline>]'']"
          "\<forall>rs. write_to_json_streaming_loop d (pre @ rs) False
                  (out1 @ [Write w, Flush]) warns =
              write_to_json_streaming_loop d rs (False \<and> pre = [])
                  ((out1 @ [Write w, Flush]) @ body) w'"
        by blast
      obtain sep where sep: "out1 = out @ sep" using o1 by blast
      show ?thesis
        using b step sep
        by (intro exI [of _ "sep @ [Write w, Flush] @ body"] exI [of _ w']) simp
    next
      case (Some e)
      show ?thesis
      proof (cases "e = AttributeError \<or> e = TypeError")
        case True
        have step: "\<And>rs. write_to_json_streaming_loop d (a # rs) first out warns =
            write_to_json_streaming_loop d rs False (out1 @ [Write w]) (warns @ [e])"
          using Inr dd Some True by (auto simp: Let_def out1_def)
        have "raised (write_to_json_streaming_loop d pre False (out1 @ [Write w])
            (warns @ [e])) = None"
          using Cons.prems step [of pre] by simp
        from Cons.IH [OF this] obtain body w' where
          b: "ops (write_to_json_streaming_loop d pre False (out1 @ [Write w]) (warns @ [e])) =
                (out1 @ [Write w]) @ body @ [Write ''\<newline>]'']"
            "\<forall>rs. write_to_json_streaming_loop d (pre @ rs) False
                    (out1 @ [Write w]) (warns @ [e]) =
                write_to_json_streaming_loop d rs (False \<and> pre = [])
                    ((out1 @ [Write w]) @ body) w'"
          by blast
        obtain sep where sep: "out1 = out @ sep" using o1 by blast
        show ?thesis
          using b step sep
          by (intro exI [of _ "sep @ [Write w] @ body"] exI [of _ w']) simp
      next
        case False
        then show ?thesis using Inr dd Some Cons.prems by (auto simp: Let_def)
      qed
    qed
  qed
qed

lemma streaming_flush_after_dump:
  assumes ok: "raised (write_to_json_streaming d pre) = None"
    and dd: "d data = (t, None)"
  shows "\<exists>after. ops (write_to_json_streaming d (pre @ Inr data # post)) =
           butlast (ops (write_to_json_streaming d pre))
           @ (if pre = [] then [] else [Write '',\<newline>''])
           @ [Write t, Flush] @ after"
proof -
  from streaming_loop_append [OF ok [unfolded write_to_json_streaming_def]]
  obtain body w' where
    b: "ops (write_to_json_streaming d pre) = [Write ''[\<newline>''] @ body @ [Write ''\<newline>]'']"
      "\<forall>rs. write_to_json_streaming d (pre @ rs) =
          write_to_json_streaming_loop d rs (True \<and> pre = []) ([Write ''[\<newline>''] @ body) w'"
    unfolding write_to_json_streaming_def by blast
  have bl: "butlast (ops (write_to_json_streaming d pre)) = [Write ''[\<newline>''] @ body"
    using b(1) by (simp add: butlast_append)
  define out2 where "out2 = ([Write ''[\<newline>''] @ body)
      @ (if pre = [] then [] else [Write '',\<newline>'']) @ [Write t, Flush]"
  have "write_to_json_streaming d (pre @ Inr data # post) =
      write_to_json_streaming_loop d post False out2 w'"
    using b(2) dd by (simp add: Let_def out2_def)
  moreover obtain after where
    "ops (write_to_json_streaming_loop d post False out2 w') = out2 @ after"
    using streaming_loop_extends by blast
  ultimately show ?thesis
    using bl by (intro exI [of _ after]) (simp add: out2_def)
qed


lemma streaming_loop_flush_count:
  "(case raised (write_to_json_streaming_loop d rs first out warns) of
      None \<Rightarrow>
        length (filter (\<lambda>op. op = Flush) (ops (write_to_json_streaming_loop d rs first out warns)))
          + length (warnings (write_to_json_streaming_loop d rs first out warns))
        = length (filter (\<lambda>op. op = Flush) out) + length warns + length rs
    | Some e \<Rightarrow>
        length (filter (\<lambda>op. op = Flush) (ops (write_to_json_streaming_loop d rs first out warns)))
          + length (warnings (write_to_json_streaming_loop d rs first out warns))
        < length (filter (\<lambda>op. op = Flush) out) + length warns + length rs)"
proof (induction rs arbitrary: first out warns)
  case Nil
  show ?case by simp
next
  case (Cons a rs)
  show ?case
  proof (cases a)
    case (Inl e)
    show ?thesis
      using Inl Cons.IH [of False "out @ [Write '',\<newline>'']" "warns @ [e]"]
        Cons.IH [of False out "warns @ [e]"]
      by (auto simp: Let_def split: option.splits)
  next
    case (Inr data)
    obtain w r where dd: "d data = (w, r)" by (cases "d data")
    show ?thesis
    proof (cases r)
      case None
      show ?thesis
        using Inr dd None
          Cons.IH [of False "out @ [Write '',\<newline>'', Write w, Flush]" warns]
          Cons.IH [of False "out @ [Write w, Flush]" warns]
        by (auto simp: Let_def split: option.splits)
    next
      case (Some e)
      show ?thesis
        using Inr dd Some
          Cons.IH [of False "out @ [Write '',\<newline>'', Write w]" "warns @ [e]"]
          Cons.IH [of False "out @ [Write w]" "warns @ [e]"]
        by (auto simp: Let_def split: option.splits)
    qed
  qed
qed

lemma streaming_flush_count:
  "(case raised (write_to_json_streaming d rs) of
      None \<Rightarrow>
        length (filter (\<lambda>op. op = Flush) (ops (write_to_json_streaming d rs)))
          + length (warnings (write_to_json_streaming d rs)) = length rs
    | Some e \<Rightarrow>
        length (filter (\<lambda>op. op = Flush) (ops (write_to_json_streaming d rs)))
          + length (warnings (write_to_json_streaming d rs)) < length rs)"
  using streaming_loop_flush_count [of d rs True "[Write ''[\<newline>'']" "[]"]
  by (simp add: write_to_json_streaming_def split: option.splits)


text \<open>
  C5. For every results sequence, \<open>write_to_json\<close> and \<open>write_to_json_streaming\<close>
  leave the same characters in the file, report the same warnings and end with the
  same exception or none. The calls of the streaming variant are those of the
  buffered one with flushes added, and the buffered one never flushes. The
  streaming variant does flush after every element: wherever an entity stands in
  the sequence, if the entities before it let the export go on and its
  \<open>json.dump\<close> returned after writing \<open>t\<close>, the calls are those made before it, the
  separator unless it is the first entity, then \<open>Write t\<close> followed at once by
  \<open>Flush\<close>. Every entity is either flushed or reported as a warning, once, when
  nothing is raised.
\<close>

theorem write_to_json_streaming_same_output:
  "file_text (ops (write_to_json_streaming json_dump results)) =
     file_text (ops (write_to_json json_dump results))
   \<and> filter (\<lambda>op. op \<noteq> Flush) (ops (write_to_json_streaming json_dump results)) =
     ops (write_to_json json_dump results)
   \<and> Flush \<notin> set (ops (write_to_json json_dump results))
   \<and> warnings (write_to_json_streaming json_dump results) =
     warnings (write_to_json json_dump results)
   \<and> raised (write_to_json_streaming json_dump results) =
     raised (write_to_json json_dump results)
   \<and> (\<forall>pre data post t.
         results = pre @ Inr data # post
         \<longrightarrow> raised (write_to_json_streaming json_dump pre) = None
         \<longrightarrow> json_dump data = (t, None)
         \<longrightarrow> (\<exists>after. ops (write_to_json_streaming json_dump results) =
               butlast (ops (write_to_json_streaming json_dump pre))
               @ (if pre = [] then [] else [Write '',\<newline>''])
               @ [Write t, Flush] @ after))
   \<and> (case raised (write_to_json_streaming json_dump results) of
        None \<Rightarrow>
          length (filter (\<lambda>op. op = Flush) (ops (write_to_json_streaming json_dump results)))
            + length (warnings (write_to_json_streaming json_dump results)) = length results
      | Some e \<Rightarrow>
          length (filter (\<lambda>op. op = Flush) (ops (write_to_json_streaming json_dump results)))
            + length (warnings (write_to_json_streaming json_dump results)) < length results)"
proof -
  have e: "write_to_json json_dump results =
      (write_to_json_streaming json_dump results)
        \<lparr>ops := filter (\<lambda>op. op \<noteq> Flush)
                  (ops (write_to_json_streaming json_dump results))\<rparr>"
    using streaming_loop_erase
      [of "[Write ''[\<newline>'']" "[Write ''[\<newline>'']" json_dump results True "[]"]
    by (simp add: write_to_json_def write_to_json_streaming_def)
  have o: "ops (write_to_json json_dump results) =
      filter (\<lambda>op. op \<noteq> Flush) (ops (write_to_json_streaming json_dump results))"
    by (subst e) simp
  have w: "warnings (write_to_json json_dump results) =
      warnings (write_to_json_streaming json_dump results)"
    by (subst e) simp
  have r: "raised (write_to_json json_dump results) =
      raised (write_to_json_streaming json_dump results)"
    by (subst e) simp
  have first5: "file_text (ops (write_to_json_streaming json_dump results)) =
       file_text (ops (write_to_json json_dump results))
     \<and> filter (\<lambda>op. op \<noteq> Flush) (ops (write_to_json_streaming json_dump results)) =
       ops (write_to_json json_dump results)
     \<and> Flush \<notin> set (ops (write_to_json json_dump results))
     \<and> warnings (write_to_json_streaming json_dump results) =
       warnings (write_to_json json_dump results)
     \<and> raised (write_to_json_streaming json_dump results) =
       raised (write_to_json json_dump results)"
    by (simp add: o w r file_text_no_flush)
  have pos: "\<forall>pre data post t.
         results = pre @ Inr data # post
         \<longrightarrow> raised (write_to_json_streaming json_dump pre) = None
         \<longrightarrow> json_dump data = (t, None)
         \<longrightarrow> (\<exists>after. ops (write_to_json_streaming json_dump results) =
               butlast (ops (write_to_json_streaming json_dump pre))
               @ (if pre = [] then [] else [Write '',\<newline>''])
               @ [Write t, Flush] @ after)"
    using streaming_flush_after_dump by blast
  show ?thesis
    using first5 pos streaming_flush_count [of json_dump results] by blast
qed

theorem write_to_json_streaming_same_output_witness:
  "raised (write_to_json_streaming (\<lambda>data. (''{}'', None)) [Inr PyNone, Inl AttributeError])
     = None
   \<and> ops (write_to_json_streaming (\<lambda>data. (''{}'', None))
        [Inr PyNone, Inl AttributeError, Inr PyNone]) =
     [Write ''[\<newline>'', Write ''{}'', Flush, Write '',\<newline>'', Write '',\<newline>'',
      Write ''{}'', Flush, Write ''\<newline>]'']
   \<and> ops (write_to_json (\<lambda>data. (''{}'', None))
        [Inr PyNone, Inl AttributeError, Inr PyNone]) =
     [Write ''[\<newline>'', Write ''{}'', Write '',\<newline>'', Write '',\<newline>'',
      Write ''{}'', Write ''\<newline>]'']
   \<and> (\<exists>after. ops (write_to_json_streaming (\<lambda>data. (''{}'', None))
              [Inr PyNone, Inl AttributeError, Inr PyNone]) =
         butlast (ops (write_to_json_streaming (\<lambda>data. (''{}'', None))
              [Inr PyNone, Inl AttributeError]))
         @ [Write '',\<newline>''] @ [Write ''{}'', Flush] @ after)"
proof -
  have h: "raised (write_to_json_streaming (\<lambda>data. (''{}'', None))
      [Inr PyNone, Inl AttributeError]) = None"
    by (simp add: write_to_json_streaming_def)
  have "\<exists>after. ops (write_to_json_streaming (\<lambda>data. (''{}'', None))
              [Inr PyNone, Inl AttributeError, Inr PyNone]) =
         butlast (ops (write_to_json_streaming (\<lambda>data. (''{}'', None))
              [Inr PyNone, Inl AttributeError]))
         @ (if [Inr PyNone, Inl AttributeError] = ([] :: entity list) then []
            else [Write '',\<newline>''])
         @ [Write ''{}'', Flush] @ after"
    using write_to_json_streaming_same_output [of "\<lambda>data. (''{}'', None)" "[Inr PyNone, Inl AttributeError, Inr PyNone]"] h
    by (elim conjE allE [of _ "[Inr PyNone, Inl AttributeError]"]
        allE [of _ PyNone] allE [of _ "[] :: entity list"] allE [of _ "''{}''"]) simp
  then show ?thesis
    using h by (simp add: write_to_json_streaming_def write_to_json_def)
qed

text \<open>
  C9 (as the specification states it, refuted). The claim counts five characters
  in the file written for the empty sequence. Neither variant writes five.
\<close>

theorem write_to_json_empty_not_five_characters:
  "length (file_text (ops (write_to_json (\<lambda>data. ([], None)) []))) \<noteq> 5
   \<and> length (file_text (ops (write_to_json_streaming (\<lambda>data. ([], None)) []))) \<noteq> 5"
  by (simp add: write_to_json_def write_to_json_streaming_def)

text \<open>
  C9 (amended). For the empty results sequence, \<open>write_to_json\<close> and the streaming
  variant write exactly the four characters open bracket, line feed, line feed,
  close bracket, and raise nothing.
\<close>

theorem write_to_json_empty:
  "file_text (ops (write_to_json json_dump [])) = [CHR ''['', CHR 0x0A, CHR 0x0A, CHR '']'']
   \<and> file_text (ops (write_to_json_streaming json_dump [])) =
       [CHR ''['', CHR 0x0A, CHR 0x0A, CHR '']'']
   \<and> length (file_text (ops (write_to_json json_dump []))) = 4
   \<and> raised (write_to_json json_dump []) = None
   \<and> raised (write_to_json_streaming json_dump []) = None"
  by (simp add: write_to_json_def write_to_json_streaming_def)

text \<open>
  C3 (the code departs from the claim). When \<open>serialize()\<close> of the first entity
  raises \<open>AttributeError\<close> and the second entity succeeds with text \<open>t\<close>, both
  variants skip the first with a warning and finish, but the file holds a comma
  before the only element; when the entity between two good ones fails, the file
  holds two commas in a row. In neither case is the file the array of the
  successfully serialized elements.
\<close>

theorem write_to_json_skipped_entity_leaves_separator:
  "file_text (ops (write_to_json (\<lambda>data. (t, None)) [Inl AttributeError, Inr d])) =
     ''[\<newline>,\<newline>'' @ t @ ''\<newline>]''
   \<and> file_text (ops (write_to_json_streaming (\<lambda>data. (t, None)) [Inl AttributeError, Inr d])) =
     ''[\<newline>,\<newline>'' @ t @ ''\<newline>]''
   \<and> file_text (ops (write_to_json (\<lambda>data. (t, None)) [Inl AttributeError, Inr d])) \<noteq>
     spec_json_array [t]
   \<and> warnings (write_to_json (\<lambda>data. (t, None)) [Inl AttributeError, Inr d]) =
     [AttributeError]
   \<and> raised (write_to_json (\<lambda>data. (t, None)) [Inl AttributeError, Inr d]) = None
   \<and> file_text (ops (write_to_json (\<lambda>data. (t, None))
        [Inr d, Inl AttributeError, Inr d])) =
     ''[\<newline>'' @ t @ '',\<newline>,\<newline>'' @ t @ ''\<newline>]''
   \<and> spec_json_array [t, t] = ''[\<newline>'' @ t @ '',\<newline>'' @ t @ ''\<newline>]''"
proof -
  have "length (''[\<newline>,\<newline>'' @ t @ ''\<newline>]'') \<noteq> length (spec_json_array [t])"
    by (simp add: spec_json_array_def)
  then have "''[\<newline>,\<newline>'' @ t @ ''\<newline>]'' \<noteq> spec_json_array [t]"
    by metis
  then show ?thesis
    by (simp add: write_to_json_def write_to_json_streaming_def spec_json_array_def)
qed

section \<open>Which exceptions a record may raise\<close>

text \<open>
  Whether an exception leaves a writer depends on the entities alone, not on
  what has been written or reported so far.
\<close>

lemma raised_json_loop_state:
  "raised (write_to_json_loop d rs first out warns) =
   raised (write_to_json_loop d rs first' out' warns')"
proof (induction rs arbitrary: first out warns first' out' warns')
  case Nil
  show ?case by simp
next
  case (Cons a rs)
  show ?case
  proof (cases a)
    case (Inl e)
    then show ?thesis
      by (auto simp: Let_def intro: Cons.IH)
  next
    case (Inr data)
    obtain w r where dd: "d data = (w, r)" by (cases "d data")
    show ?thesis
      using Inr dd by (cases r) (auto simp: Let_def intro: Cons.IH)
  qed
qed

lemma raised_json_loop_append:
  "raised (write_to_json_loop d (pre @ rs) first out warns) =
     (case raised (write_to_json_loop d pre first out warns) of
        Some x \<Rightarrow> Some x
      | None \<Rightarrow> raised (write_to_json_loop d rs True [] []))"
proof (induction pre arbitrary: first out warns)
  case Nil
  show ?case
    using raised_json_loop_state [of d rs first out warns True "[]" "[]"] by simp
next
  case (Cons a pre)
  show ?case
  proof (cases a)
    case (Inl e)
    then show ?thesis
      by (simp add: Let_def Cons.IH)
  next
    case (Inr data)
    obtain w r where dd: "d data = (w, r)" by (cases "d data")
    show ?thesis
      using Inr dd by (cases r) (simp_all add: Let_def Cons.IH)
  qed
qed

lemma raised_write_to_json_append:
  "raised (write_to_json d (pre @ Inl e # post)) =
     (case raised (write_to_json d pre) of
        Some x \<Rightarrow> Some x
      | None \<Rightarrow>
          if e = AttributeError \<or> e = TypeError then raised (write_to_json d post)
          else Some e)"
proof -
  have h: "\<And>x. raised (write_to_json_loop d post False [] [x]) =
      raised (write_to_json_loop d post True [Write ''[\<newline>''] [])"
    by (rule raised_json_loop_state)
  show ?thesis
    by (simp add: write_to_json_def raised_json_loop_append h split: option.split)
qed

lemma raised_csv_loop_state:
  "raised (write_to_csv_loop c rs out warns) = raised (write_to_csv_loop c rs out' warns')"
proof (induction rs arbitrary: out warns out' warns')
  case Nil
  show ?case by simp
next
  case (Cons a rs)
  show ?case
    by (auto split: sum.splits intro: Cons.IH)
qed

lemma raised_csv_loop_append:
  "raised (write_to_csv_loop c (pre @ rs) out warns) =
     (case raised (write_to_csv_loop c pre out warns) of
        Some x \<Rightarrow> Some x
      | None \<Rightarrow> raised (write_to_csv_loop c rs [] []))"
proof (induction pre arbitrary: out warns)
  case Nil
  show ?case
    using raised_csv_loop_state [of c rs out warns "[]" "[]"] by simp
next
  case (Cons a pre)
  show ?case
    by (simp add: Cons.IH split: sum.splits)
qed

lemma raised_write_to_csv_append:
  "raised (write_to_csv c (pre @ Inl e # post)) =
     (case raised (write_to_csv c pre) of
        Some x \<Rightarrow> Some x
      | None \<Rightarrow>
          if e = AttributeError \<or> e = KeyError then raised (write_to_csv c post)
          else Some e)"
proof -
  have h: "\<And>x. raised (write_to_csv_loop c post [] [x]) =
      raised (write_to_csv_loop c post [Write (c (map PyStr fieldnames))] [])"
    by (rule raised_csv_loop_state)
  show ?thesis
    by (simp add: write_to_csv_def raised_csv_loop_append h split: option.split)
qed


lemma raised_streaming_eq:
  "raised (write_to_json_streaming d rs) = raised (write_to_json d rs)"
proof -
  have "write_to_json d rs =
      (write_to_json_streaming d rs)
        \<lparr>ops := filter (\<lambda>op. op \<noteq> Flush) (ops (write_to_json_streaming d rs))\<rparr>"
    unfolding write_to_json_def write_to_json_streaming_def
    by (rule streaming_loop_erase) simp
  then have "raised (write_to_json d rs) = raised ((write_to_json_streaming d rs)
        \<lparr>ops := filter (\<lambda>op. op \<noteq> Flush) (ops (write_to_json_streaming d rs))\<rparr>)"
    by simp
  then show ?thesis by simp
qed

text \<open>
  C10. The handler of the loop body names \<open>AttributeError\<close> and \<open>KeyError\<close> in
  \<open>write_to_csv\<close>, and \<open>AttributeError\<close> and \<open>TypeError\<close> in \<open>write_to_json\<close> and
  \<open>write_to_json_streaming\<close>. Wherever in the sequence an entity's \<open>serialize()\<close>
  raises \<open>e\<close>, and the entities before it let the export go on, the export goes on
  with the entities after it exactly when \<open>e\<close> is one of the two classes of that
  writer, and otherwise \<open>e\<close> leaves the function. So a \<open>KeyError\<close> ends a JSON export
  and a \<open>TypeError\<close> (also one raised by the flattening of a value that is not a
  mapping) ends a CSV export: nothing more is written, not even the closing
  bracket.
\<close>

theorem per_record_handlers:
  "raised (write_to_csv csv_line (pre @ Inl e # post)) =
     (case raised (write_to_csv csv_line pre) of
        Some x \<Rightarrow> Some x
      | None \<Rightarrow>
          if e = AttributeError \<or> e = KeyError then raised (write_to_csv csv_line post)
          else Some e)
   \<and> raised (write_to_json json_dump (pre @ Inl e # post)) =
     (case raised (write_to_json json_dump pre) of
        Some x \<Rightarrow> Some x
      | None \<Rightarrow>
          if e = AttributeError \<or> e = TypeError then raised (write_to_json json_dump post)
          else Some e)
   \<and> raised (write_to_json_streaming json_dump (pre @ Inl e # post)) =
     (case raised (write_to_json_streaming json_dump pre) of
        Some x \<Rightarrow> Some x
      | None \<Rightarrow>
          if e = AttributeError \<or> e = TypeError
          then raised (write_to_json_streaming json_dump post)
          else Some e)
   \<and> write_to_json json_dump (Inl KeyError # post) =
       \<lparr>ops = [Write ''[\<newline>''], warnings = [], raised = Some KeyError\<rparr>
   \<and> write_to_json_streaming json_dump (Inl KeyError # post) =
       \<lparr>ops = [Write ''[\<newline>''], warnings = [], raised = Some KeyError\<rparr>
   \<and> write_to_csv csv_line (Inl TypeError # post) =
       \<lparr>ops = [Write (csv_line (map PyStr fieldnames))], warnings = [],
        raised = Some TypeError\<rparr>
   \<and> write_to_csv csv_line (Inr PyNone # post) =
       \<lparr>ops = [Write (csv_line (map PyStr fieldnames))], warnings = [],
        raised = Some TypeError\<rparr>"
proof (intro conjI)
  show "raised (write_to_csv csv_line (pre @ Inl e # post)) =
     (case raised (write_to_csv csv_line pre) of
        Some x \<Rightarrow> Some x
      | None \<Rightarrow>
          if e = AttributeError \<or> e = KeyError then raised (write_to_csv csv_line post)
          else Some e)"
    by (rule raised_write_to_csv_append)
  show "raised (write_to_json json_dump (pre @ Inl e # post)) =
     (case raised (write_to_json json_dump pre) of
        Some x \<Rightarrow> Some x
      | None \<Rightarrow>
          if e = AttributeError \<or> e = TypeError then raised (write_to_json json_dump post)
          else Some e)"
    by (rule raised_write_to_json_append)
  then show "raised (write_to_json_streaming json_dump (pre @ Inl e # post)) =
     (case raised (write_to_json_streaming json_dump pre) of
        Some x \<Rightarrow> Some x
      | None \<Rightarrow>
          if e = AttributeError \<or> e = TypeError
          then raised (write_to_json_streaming json_dump post)
          else Some e)"
    by (simp only: raised_streaming_eq)
  show "write_to_json json_dump (Inl KeyError # post) =
       \<lparr>ops = [Write ''[\<newline>''], warnings = [], raised = Some KeyError\<rparr>"
    by (simp add: write_to_json_def)
  show "write_to_json_streaming json_dump (Inl KeyError # post) =
       \<lparr>ops = [Write ''[\<newline>''], warnings = [], raised = Some KeyError\<rparr>"
    by (simp add: write_to_json_streaming_def)
  show "write_to_csv csv_line (Inl TypeError # post) =
       \<lparr>ops = [Write (csv_line (map PyStr fieldnames))], warnings = [],
        raised = Some TypeError\<rparr>"
    by (simp add: write_to_csv_def)
  show "write_to_csv csv_line (Inr PyNone # post) =
       \<lparr>ops = [Write (csv_line (map PyStr fieldnames))], warnings = [],
        raised = Some TypeError\<rparr>"
    by (simp add: write_to_csv_def csv_row_of_def)
qed

section \<open>Loading the catalogue of objects\<close>

lemma strip_Nil: "strip [] = []"
  by (simp add: strip_def)

lemma float_ne_self: "float_ne d d = (d = NaN)"
  by (cases d) simp_all

text \<open>
  For a header that names a column twice, the later column is the one read.
\<close>

lemma row_getitem_repeated_header:
  "row_getitem [(''name'', Some ''First''), (''name'', Some ''Second'')] ''name'' =
     Inr (Some ''Second'')"
  by (simp add: row_getitem_def)

text \<open>
  C6 (as the specification states it, refuted). Python's \<open>float\<close> reads the text
  \<open>nan\<close> as not-a-number. A row whose diameter text is \<open>nan\<close> has a diameter field
  that is not blank, yet it loads to the same object as the row with the empty
  diameter text: the presence of the diameter does not survive loading.
\<close>

theorem load_neos_nan_text_loads_as_absent:
  "strip ''nan'' \<noteq> []
   \<and> load_neos (\<lambda>s. if s = ''nan'' then Some NaN else None)
     [[(''pdes'', Some ''433''), (''name'', Some ''Eros''), (''diameter'', Some ''nan''),
       (''pha'', Some ''N'')]] =
     Inr [\<lparr>designation = ''433'', name = Some ''Eros'', diameter = NaN, hazardous = False\<rparr>]
   \<and> load_neos (\<lambda>s. if s = ''nan'' then Some NaN else None)
     [[(''pdes'', Some ''433''), (''name'', Some ''Eros''), (''diameter'', Some []),
       (''pha'', Some ''N'')]] =
     Inr [\<lparr>designation = ''433'', name = Some ''Eros'', diameter = NaN, hazardous = False\<rparr>]"
  by (simp add: neo_of_row_def row_getitem_def strip_truthy_def NearEarthObject_init_def
      strip_def isspace_def)

lemma row_text_getitem: "row_text row key = Some s \<Longrightarrow> row_getitem row key = Inr (Some s)"
  by (auto simp: row_text_def split: sum.splits option.splits)

lemma neo_of_row_valid:
  assumes v: "valid_row float_of_str row"
  shows "\<exists>pdes nm dia pha n.
      row_text row ''pdes'' = Some pdes \<and> row_text row ''name'' = Some nm
      \<and> row_text row ''diameter'' = Some dia \<and> row_text row ''pha'' = Some pha
      \<and> neo_of_row float_of_str row = Inr n
      \<and> designation n = pdes
      \<and> hazardous n = (pha = ''Y'')
      \<and> name n = (if strip nm = [] then None else Some nm)
      \<and> (diameter n = NaN) = (strip dia = [])
      \<and> (strip dia \<noteq> [] \<longrightarrow> float_of_str dia = Some (diameter n))
      \<and> neo_serialize n =
          PyDict
            [(''designation'', PyStr pdes),
             (''name'', PyStr (if strip nm = [] then [] else nm)),
             (''diameter_km'', PyFloat (diameter n)),
             (''potentially_hazardous'', PyBool (pha = ''Y''))]"
proof -
  obtain pdes nm dia pha where t: "row_text row ''pdes'' = Some pdes"
      "row_text row ''name'' = Some nm" "row_text row ''diameter'' = Some dia"
      "row_text row ''pha'' = Some pha"
    using v by (auto simp: valid_row_def split: option.splits)
  have num: "strip dia \<noteq> [] \<Longrightarrow> \<exists>f. float_of_str dia = Some f \<and> f \<noteq> NaN"
    using v t by (auto simp: valid_row_def split: option.splits)
  note g = row_text_getitem [OF t(1)] row_text_getitem [OF t(2)]
    row_text_getitem [OF t(3)] row_text_getitem [OF t(4)]
  have nm_ne: "strip nm \<noteq> [] \<Longrightarrow> nm \<noteq> []"
    using strip_Nil by auto
  have dia_ne: "strip dia \<noteq> [] \<Longrightarrow> dia \<noteq> []"
    using strip_Nil by auto
  show ?thesis
  proof (cases "strip dia = []")
    case True
    then show ?thesis
      using t g nm_ne
      by (auto simp: neo_of_row_def strip_truthy_def NearEarthObject_init_def
          neo_serialize_def)
  next
    case False
    then obtain f where f: "float_of_str dia = Some f" "f \<noteq> NaN"
      using num by blast
    then show ?thesis
      using False t g nm_ne dia_ne
      by (auto simp: neo_of_row_def strip_truthy_def NearEarthObject_init_def
          neo_serialize_def float_ne_self)
  qed
qed

text \<open>
  C6 (amended). For every sequence of valid rows, that is, rows that have the four
  columns with a text and whose diameter text is blank or read by \<open>float\<close> as a
  number other than not-a-number, \<open>load_neos\<close> returns one object per row, in
  order, and for each row: the designation is the \<open>pdes\<close> text; the flag is true
  exactly when the \<open>pha\<close> text is \<open>Y\<close>; the name is \<open>None\<close> for an empty or
  whitespace-only name text and the text itself otherwise; the diameter is
  not-a-number exactly when the diameter text is blank, and the number \<open>float\<close>
  reads otherwise; and \<open>serialize\<close> gives these values back, the absent name as
  the empty string.
\<close>

theorem load_neos_roundtrip:
  assumes "list_all (valid_row float_of_str) rows"
  shows "\<exists>ns. load_neos float_of_str rows = Inr ns
     \<and> list_all2
         (\<lambda>row n. \<exists>pdes nm dia pha.
            row_text row ''pdes'' = Some pdes \<and> row_text row ''name'' = Some nm
            \<and> row_text row ''diameter'' = Some dia \<and> row_text row ''pha'' = Some pha
            \<and> designation n = pdes
            \<and> hazardous n = (pha = ''Y'')
            \<and> name n = (if strip nm = [] then None else Some nm)
            \<and> (diameter n = NaN) = (strip dia = [])
            \<and> (strip dia \<noteq> [] \<longrightarrow> float_of_str dia = Some (diameter n))
            \<and> neo_serialize n =
                PyDict
                  [(''designation'', PyStr pdes),
                   (''name'', PyStr (if strip nm = [] then [] else nm)),
                   (''diameter_km'', PyFloat (diameter n)),
                   (''potentially_hazardous'', PyBool (pha = ''Y''))])
         rows ns"
proof -
  let ?P = "\<lambda>row n. \<exists>pdes nm dia pha.
            row_text row ''pdes'' = Some pdes \<and> row_text row ''name'' = Some nm
            \<and> row_text row ''diameter'' = Some dia \<and> row_text row ''pha'' = Some pha
            \<and> designation n = pdes
            \<and> hazardous n = (pha = ''Y'')
            \<and> name n = (if strip nm = [] then None else Some nm)
            \<and> (diameter n = NaN) = (strip dia = [])
            \<and> (strip dia \<noteq> [] \<longrightarrow> float_of_str dia = Some (diameter n))
            \<and> neo_serialize n =
                PyDict
                  [(''designation'', PyStr pdes),
                   (''name'', PyStr (if strip nm = [] then [] else nm)),
                   (''diameter_km'', PyFloat (diameter n)),
                   (''potentially_hazardous'', PyBool (pha = ''Y''))]"
  have "\<exists>ns. load_neos float_of_str rows = Inr ns \<and> list_all2 ?P rows ns"
    using assms
  proof (induction rows)
    case Nil
    show ?case by simp
  next
    case (Cons row rows)
    from Cons.prems have v: "valid_row float_of_str row"
      and vs: "list_all (valid_row float_of_str) rows"
      by simp_all
    from neo_of_row_valid [OF v] obtain n where
      n: "neo_of_row float_of_str row = Inr n" and pn: "?P row n"
      by blast
    from Cons.IH [OF vs] obtain ns where
      ns: "load_neos float_of_str rows = Inr ns" and pns: "list_all2 ?P rows ns"
      by blast
    have "load_neos float_of_str (row # rows) = Inr (n # ns)"
      using n ns by simp
    moreover have "list_all2 ?P (row # rows) (n # ns)"
      using pn pns by (rule list_all2_Cons [THEN iffD2, OF conjI])
    ultimately show ?case by blast
  qed
  then show ?thesis .
qed

theorem load_neos_roundtrip_witness:
  "list_all (valid_row (\<lambda>s. if s = ''16.84'' then Some (Fin 16.84) else None))
     [[(''pdes'', Some ''433''), (''name'', Some ''Eros''), (''diameter'', Some ''16.84''),
       (''pha'', Some ''N'')],
      [(''pdes'', Some ''2020 AB''), (''name'', Some []), (''diameter'', Some '' ''),
       (''pha'', Some ''Y'')]]
   \<and> load_neos (\<lambda>s. if s = ''16.84'' then Some (Fin 16.84) else None)
     [[(''pdes'', Some ''433''), (''name'', Some ''Eros''), (''diameter'', Some ''16.84''),
       (''pha'', Some ''N'')],
      [(''pdes'', Some ''2020 AB''), (''name'', Some []), (''diameter'', Some '' ''),
       (''pha'', Some ''Y'')]] =
     Inr [\<lparr>designation = ''433'', name = Some ''Eros'', diameter = Fin 16.84,
           hazardous = False\<rparr>,
          \<lparr>designation = ''2020 AB'', name = None, diameter = NaN, hazardous = True\<rparr>]
   \<and> neo_serialize \<lparr>designation = ''2020 AB'', name = None, diameter = NaN,
         hazardous = True\<rparr> =
     PyDict [(''designation'', PyStr ''2020 AB''), (''name'', PyStr []),
             (''diameter_km'', PyFloat NaN), (''potentially_hazardous'', PyBool True)]"
proof -
  have h: "list_all (valid_row (\<lambda>s. if s = ''16.84'' then Some (Fin 16.84) else None))
     [[(''pdes'', Some ''433''), (''name'', Some ''Eros''), (''diameter'', Some ''16.84''),
       (''pha'', Some ''N'')],
      [(''pdes'', Some ''2020 AB''), (''name'', Some []), (''diameter'', Some '' ''),
       (''pha'', Some ''Y'')]]"
    by (simp add: valid_row_def row_text_def row_getitem_def strip_def isspace_def)
  show ?thesis
    using load_neos_roundtrip [OF h] h
    by (simp add: neo_of_row_def row_getitem_def strip_truthy_def NearEarthObject_init_def
        neo_serialize_def strip_def isspace_def)
qed

section \<open>Loading the close approaches\<close>

text \<open>What \<open>index\<close> returns, and what it returns on a reordered list.\<close>

lemma py_index_Inl: "py_index xs x = Inl e \<Longrightarrow> e = ValueError \<and> PyStr x \<notin> set xs"
  by (induction xs arbitrary: e) (auto split: if_splits sum.splits simp: map_sum_def)

lemma py_index_Inr: "py_index xs x = Inr i \<Longrightarrow> i < length xs \<and> xs ! i = PyStr x"
  by (induction xs arbitrary: i) (auto split: if_splits sum.splits simp: map_sum_def)

lemma py_index_permuted_Inl:
  assumes p: "set p = {..<length xs}" and l: "py_index xs x = Inl e"
  shows "py_index (map ((!) xs) p) x = Inl e"
proof -
  have e: "e = ValueError" and nin: "PyStr x \<notin> set xs"
    using py_index_Inl [OF l] by simp_all
  show ?thesis
  proof (cases "py_index (map ((!) xs) p) x")
    case (Inl e')
    then have "e' = ValueError" using py_index_Inl by blast
    then show ?thesis using Inl e by simp
  next
    case (Inr j)
    have jl: "j < length p" and xj: "xs ! (p ! j) = PyStr x"
      using py_index_Inr [OF Inr] by auto
    have "p ! j \<in> set p" using jl by simp
    then have "p ! j < length xs" using p by simp
    then have "xs ! (p ! j) \<in> set xs" by simp
    then show ?thesis using xj nin by simp
  qed
qed

lemma py_index_permuted_Inr:
  assumes d: "distinct xs" and p: "set p = {..<length xs}" and r: "py_index xs x = Inr i"
  shows "\<exists>j. py_index (map ((!) xs) p) x = Inr j \<and> j < length p \<and> p ! j = i"
proof -
  have i: "i < length xs" and xi: "xs ! i = PyStr x"
    using py_index_Inr [OF r] by simp_all
  have "i \<in> set p" using p i by simp
  then have "xs ! i \<in> (!) xs ` set p" by (rule imageI)
  then have mem: "PyStr x \<in> set (map ((!) xs) p)" using xi by simp
  show ?thesis
  proof (cases "py_index (map ((!) xs) p) x")
    case (Inl e')
    then show ?thesis using py_index_Inl [OF Inl] mem by simp
  next
    case (Inr j)
    have jl: "j < length p" and xj: "xs ! (p ! j) = PyStr x"
      using py_index_Inr [OF Inr] by auto
    have "p ! j \<in> set p" using jl by simp
    then have pj: "p ! j < length xs" using p by simp
    have "xs ! (p ! j) = xs ! i" using xj xi by simp
    then have "p ! j = i"
      using d pj i by (simp add: nth_eq_iff_index_eq)
    then show ?thesis using Inr jl by simp
  qed
qed

lemma list_getitem_permuted:
  "j < length p \<Longrightarrow> p ! j < length row \<Longrightarrow>
   list_getitem (map ((!) row) p) j = list_getitem row (p ! j)"
  by (simp add: list_getitem_def)

lemma approach_of_row_permuted:
  assumes "j1 < length p" "j2 < length p" "j3 < length p" "j4 < length p"
    and "p ! j1 < length row" "p ! j2 < length row" "p ! j3 < length row" "p ! j4 < length row"
  shows "approach_of_row r f c j1 j2 j3 j4 (map ((!) row) p) =
         approach_of_row r f c (p ! j1) (p ! j2) (p ! j3) (p ! j4) row"
  using assms by (simp add: approach_of_row_def list_getitem_def)

lemma approaches_of_rows_permuted:
  assumes "j1 < length p" "j2 < length p" "j3 < length p" "j4 < length p"
    and "p ! j1 < n" "p ! j2 < n" "p ! j3 < n" "p ! j4 < n"
    and "\<forall>row \<in> set rows. length row = n"
  shows "approaches_of_rows r f c j1 j2 j3 j4 (map (\<lambda>row. map ((!) row) p) rows) =
         approaches_of_rows r f c (p ! j1) (p ! j2) (p ! j3) (p ! j4) rows"
  using assms
proof (induction rows)
  case Nil
  show ?case by simp
next
  case (Cons row rows)
  have "approach_of_row r f c j1 j2 j3 j4 (map ((!) row) p) =
        approach_of_row r f c (p ! j1) (p ! j2) (p ! j3) (p ! j4) row"
    using Cons.prems by (intro approach_of_row_permuted) simp_all
  moreover have "approaches_of_rows r f c j1 j2 j3 j4 (map (\<lambda>row. map ((!) row) p) rows) =
         approaches_of_rows r f c (p ! j1) (p ! j2) (p ! j3) (p ! j4) rows"
    using Cons.prems by (intro Cons.IH) simp_all
  ultimately show ?case by (simp split: sum.splits)
qed



text \<open>
  C7. Let the names in \<open>fields\<close> be distinct, every row of \<open>data\<close> as long as
  \<open>fields\<close>, and \<open>p\<close> a permutation of the positions. Reordering \<open>fields\<close> by \<open>p\<close>
  and every row by the same \<open>p\<close> leaves the result of \<open>load_approaches\<close> unchanged:
  the same list of close approaches, or the same exception.
\<close>

theorem load_approaches_permuted:
  assumes d: "distinct field_names"
    and p: "length p = length field_names" "set p = {..<length field_names}"
    and rows: "\<forall>row \<in> set approach_data. length row = length field_names"
  shows "load_approaches repr float_of_str cd_to_datetime
           (map ((!) field_names) p) (map (\<lambda>row. map ((!) row) p) approach_data) =
         load_approaches repr float_of_str cd_to_datetime field_names approach_data"
proof -
  note permL = py_index_permuted_Inl [OF p(2)]
  note permR = py_index_permuted_Inr [OF d p(2)]
  note bound = py_index_Inr [of field_names]
  show ?thesis
  proof (cases "py_index field_names ''des''")
    case (Inl e)
    then show ?thesis using permL [OF Inl] by (simp add: load_approaches_def)
  next
    case i1: (Inr i1)
    obtain j1 where j1: "py_index (map ((!) field_names) p) ''des'' = Inr j1"
        "j1 < length p" "p ! j1 = i1"
      using permR [OF i1] by blast
    show ?thesis
    proof (cases "py_index field_names ''cd''")
      case (Inl e)
      then show ?thesis using permL [OF Inl] i1 j1(1) by (simp add: load_approaches_def)
    next
      case i2: (Inr i2)
      obtain j2 where j2: "py_index (map ((!) field_names) p) ''cd'' = Inr j2"
          "j2 < length p" "p ! j2 = i2"
        using permR [OF i2] by blast
      show ?thesis
      proof (cases "py_index field_names ''dist''")
        case (Inl e)
        then show ?thesis
          using permL [OF Inl] i1 j1(1) i2 j2(1) by (simp add: load_approaches_def)
      next
        case i3: (Inr i3)
        obtain j3 where j3: "py_index (map ((!) field_names) p) ''dist'' = Inr j3"
            "j3 < length p" "p ! j3 = i3"
          using permR [OF i3] by blast
        show ?thesis
        proof (cases "py_index field_names ''v_rel''")
          case (Inl e)
          then show ?thesis
            using permL [OF Inl] i1 j1(1) i2 j2(1) i3 j3(1)
            by (simp add: load_approaches_def)
        next
          case i4: (Inr i4)
          obtain j4 where j4: "py_index (map ((!) field_names) p) ''v_rel'' = Inr j4"
              "j4 < length p" "p ! j4 = i4"
            using permR [OF i4] by blast
          have b: "p ! j1 < length field_names" "p ! j2 < length field_names"
              "p ! j3 < length field_names" "p ! j4 < length field_names"
            using bound [OF i1] bound [OF i2] bound [OF i3] bound [OF i4]
              j1(3) j2(3) j3(3) j4(3) by simp_all
          have "approaches_of_rows repr float_of_str cd_to_datetime j1 j2 j3 j4
                  (map (\<lambda>row. map ((!) row) p) approach_data) =
                approaches_of_rows repr float_of_str cd_to_datetime
                  (p ! j1) (p ! j2) (p ! j3) (p ! j4) approach_data"
            using j1(2) j2(2) j3(2) j4(2) b rows
            by (rule approaches_of_rows_permuted)
          then have "approaches_of_rows repr float_of_str cd_to_datetime j1 j2 j3 j4
                  (map (\<lambda>row. map ((!) row) p) approach_data) =
                approaches_of_rows repr float_of_str cd_to_datetime
                  i1 i2 i3 i4 approach_data"
            by (simp only: j1(3) j2(3) j3(3) j4(3))
          then show ?thesis
            using i1 i2 i3 i4 j1(1) j2(1) j3(1) j4(1) by (simp add: load_approaches_def)
        qed
      qed
    qed
  qed
qed

theorem load_approaches_permuted_witness:
  "distinct [PyStr ''des'', PyStr ''orbit_id'', PyStr ''cd'', PyStr ''dist'', PyStr ''v_rel'']
   \<and> set [4, 2, 0, 1, 3 :: nat] = {..<5}
   \<and> load_approaches (\<lambda>v. ''?'') (\<lambda>s. if s = ''0.1'' then Some (Fin 0.1) else None)
      (\<lambda>v. Inr v)
      (map ((!) [PyStr ''des'', PyStr ''orbit_id'', PyStr ''cd'', PyStr ''dist'', PyStr ''v_rel''])
         [4, 2, 0, 1, 3])
      (map (\<lambda>row. map ((!) row) [4, 2, 0, 1, 3])
         [[PyStr ''433'', PyStr ''7'', PyStr ''1900-Jan-01 00:00'', PyStr ''0.1'', PyNone]]) =
     load_approaches (\<lambda>v. ''?'') (\<lambda>s. if s = ''0.1'' then Some (Fin 0.1) else None)
      (\<lambda>v. Inr v)
      [PyStr ''des'', PyStr ''orbit_id'', PyStr ''cd'', PyStr ''dist'', PyStr ''v_rel'']
      [[PyStr ''433'', PyStr ''7'', PyStr ''1900-Jan-01 00:00'', PyStr ''0.1'', PyNone]]
   \<and> load_approaches (\<lambda>v. ''?'') (\<lambda>s. if s = ''0.1'' then Some (Fin 0.1) else None)
      (\<lambda>v. Inr v)
      [PyStr ''v_rel'', PyStr ''cd'', PyStr ''des'', PyStr ''orbit_id'', PyStr ''dist'']
      [[PyNone, PyStr ''1900-Jan-01 00:00'', PyStr ''433'', PyStr ''7'', PyStr ''0.1'']] =
     Inr [\<lparr>ca_designation = ''433'', time = Some (PyStr ''1900-Jan-01 00:00''),
           distance = Fin 0.1, velocity = Fin 0, neo = None\<rparr>]"
proof -
  have h1: "distinct
      [PyStr ''des'', PyStr ''orbit_id'', PyStr ''cd'', PyStr ''dist'', PyStr ''v_rel'']"
    by simp
  have h2: "length [4, 2, 0, 1, 3 :: nat] =
      length [PyStr ''des'', PyStr ''orbit_id'', PyStr ''cd'', PyStr ''dist'', PyStr ''v_rel'']"
    by simp
  have h3: "set [4, 2, 0, 1, 3 :: nat] =
      {..<length [PyStr ''des'', PyStr ''orbit_id'', PyStr ''cd'', PyStr ''dist'', PyStr ''v_rel'']}"
    by (auto simp: lessThan_def)
  have h4: "\<forall>row \<in> set
        [[PyStr ''433'', PyStr ''7'', PyStr ''1900-Jan-01 00:00'', PyStr ''0.1'', PyNone]].
      length row =
      length [PyStr ''des'', PyStr ''orbit_id'', PyStr ''cd'', PyStr ''dist'', PyStr ''v_rel'']"
    by simp
  have h5: "set [4, 2, 0, 1, 3 :: nat] = {..<5}"
    using h3 by simp
  show ?thesis
    using load_approaches_permuted [OF h1 h2 h3 h4,
        where repr = "\<lambda>v. ''?''"
          and float_of_str = "\<lambda>s. if s = ''0.1'' then Some (Fin 0.1) else None"
          and cd_to_datetime = "\<lambda>v. Inr v"] h5
    by (simp add: load_approaches_def approach_of_row_def list_getitem_def
        CloseApproach_init_def)
qed

end
